theory Spec2Isabelle
  imports Complex_Main
begin

section \<open>The off-line smoothing script of the discrete Cox model\<close>

text \<open>
  A shallow embedding of \<^verbatim>\<open>book/smoothing/offline_smoothing.py\<close>. The script sets up
  a discrete Cox state-space model, the additive functional \<open>psit\<close> whose smoothing
  expectation is estimated, the two Feynman-Kac models (forward and information filter),
  the prior \<open>log_gamma\<close> of the information filter, and the sweep over methods and
  particle counts.

  Python floats are read as the real numbers they denote (\<open>.9\<close> is \<open>9/10\<close>, \<open>.5\<close> is
  \<open>1/2\<close>), Python integers as \<open>int\<close> or \<open>nat\<close>, lists as lists, keyword arguments
  as the fields of a record.
\<close>

subsection \<open>The model class\<close>

text \<open>
  \<^verbatim>\<open>class DiscreteCox_with_add_f(ssms.DiscreteCox)\<close>: an object of the class carries the
  parameters \<open>mu\<close>, \<open>phi\<close> and \<open>sigma\<close> given to its constructor.
\<close>

record DiscreteCox_with_add_f =
  mu :: real
  phi :: real
  sigma :: real

text \<open>
  \<^verbatim>\<open>def upper_bound_log_pt(self, t): return -0.5 * np.log(2 * np.pi * self.sigma**2)\<close>
\<close>

definition upper_bound_log_pt :: "DiscreteCox_with_add_f \<Rightarrow> int \<Rightarrow> real" where
  "upper_bound_log_pt self t = - 0.5 * ln (2 * pi * (sigma self) ^ 2)"

text \<open>
  The density of the Normal distribution with mean \<open>m\<close> and variance \<open>v\<close>, as the
  textbook writes it.
\<close>

definition normal_density :: "real \<Rightarrow> real \<Rightarrow> real \<Rightarrow> real" where
  "normal_density m v x = exp (- ((x - m) ^ 2) / (2 * v)) / sqrt (2 * pi * v)"

text \<open>
  Modelled from the spec: the transition law \<^verbatim>\<open>DiscreteCox.PX\<close> of the parent class is in
  \<^verbatim>\<open>particles/state_space_models.py\<close>, which is not among the sources. The script's
  header gives it as \<open>X_t | X_{t-1} = x ~ N(mu + phi (x - mu), sigma^2)\<close>; \<open>log_pt\<close> is the
  logarithm of that density at \<open>x'\<close>.
\<close>

definition log_pt :: "DiscreteCox_with_add_f \<Rightarrow> real \<Rightarrow> real \<Rightarrow> real" where
  "log_pt self x x' =
     ln (normal_density (mu self + phi self * (x - mu self)) ((sigma self) ^ 2) x')"

text \<open>
  Modelled from the spec: the initial law \<^verbatim>\<open>DiscreteCox.PX0\<close> of the parent class is
  not among the sources either. The docstring of the class gives it as
  \<open>X_0 ~ N(mu, sigma^2 / (1 - phi^2))\<close>; \<open>log_px0\<close> is the logarithm of that density.
\<close>

definition log_px0 :: "DiscreteCox_with_add_f \<Rightarrow> real \<Rightarrow> real" where
  "log_px0 self x = ln (normal_density (mu self) ((sigma self) ^ 2 / (1 - (phi self) ^ 2)) x)"

subsection \<open>Set-up: true parameters and model\<close>

definition T :: nat where
  "T = 100"

definition mu0 :: real where
  "mu0 = 0"

definition phi0 :: real where
  "phi0 = 0.9"

definition sigma0 :: real where
  "sigma0 = 0.5"

definition my_ssm :: DiscreteCox_with_add_f where
  "my_ssm = \<lparr>mu = mu0, phi = phi0, sigma = sigma0\<rparr>"

subsection \<open>The additive functional\<close>

text \<open>
  \<^verbatim>\<open>def psi0(x):
    return -0.5 / sigma0**2 + (0.5 * (1. - phi0**2) / sigma0**4) * (x - mu0)**2\<close>
\<close>

definition psi0 :: "real \<Rightarrow> real" where
  "psi0 x = - 0.5 / (sigma0 ^ 2) + (0.5 * (1 - phi0 ^ 2) / (sigma0 ^ 4)) * (x - mu0) ^ 2"

text \<open>
  \<^verbatim>\<open>def psit(t, x, xf):
    if t == 0:
        return psi0(x) + psit(1, x, xf)
    else:
        return -0.5 / sigma0**2 + (0.5 / sigma0**4) * ((xf - mu0) - phi0 * (x - mu0))**2\<close>

  The function calls itself, so it is defined by general recursion; the measure is \<open>1\<close>
  at \<open>t = 0\<close> and \<open>0\<close> elsewhere.
\<close>

function psit :: "int \<Rightarrow> real \<Rightarrow> real \<Rightarrow> real" where
  "psit t x xf =
     (if t = 0 then psi0 x + psit 1 x xf
      else - 0.5 / (sigma0 ^ 2) + (0.5 / (sigma0 ^ 4)) * ((xf - mu0) - phi0 * (x - mu0)) ^ 2)"
  by pat_completeness auto
termination
  by (relation "measure (\<lambda>(t, x, xf). if t = 0 then 1 else 0)") auto

declare psit.simps [simp del]

text \<open>
  The same body with a bound on the number of nested activations of \<open>psit\<close>: each call
  uses one unit of fuel, and a call that finds none left does not return (\<open>None\<close>).
\<close>

fun psit_fuel :: "nat \<Rightarrow> int \<Rightarrow> real \<Rightarrow> real \<Rightarrow> real option" where
  "psit_fuel 0 t x xf = None"
| "psit_fuel (Suc n) t x xf =
     (if t = 0 then
        (case psit_fuel n 1 x xf of None \<Rightarrow> None | Some v \<Rightarrow> Some (psi0 x + v))
      else Some (- 0.5 / (sigma0 ^ 2)
                 + (0.5 / (sigma0 ^ 4)) * ((xf - mu0) - phi0 * (x - mu0)) ^ 2))"

text \<open>
  The explicit, non-recursive form of the functional that the design notes ask for: a
  base case at \<open>t = 0\<close> and one formula for all other \<open>t\<close>.
\<close>

definition psit_step :: "real \<Rightarrow> real \<Rightarrow> real" where
  "psit_step x xf =
     - 0.5 / (sigma0 ^ 2) + (0.5 / (sigma0 ^ 4)) * ((xf - mu0) - phi0 * (x - mu0)) ^ 2"

definition psit_explicit :: "int \<Rightarrow> real \<Rightarrow> real \<Rightarrow> real" where
  "psit_explicit t x xf = (if t = 0 then psi0 x + psit_step x xf else psit_step x xf)"

subsection \<open>The Feynman-Kac models\<close>

text \<open>
  \<^verbatim>\<open>ssms.Bootstrap(ssm=..., data=...)\<close> keeps the model and the observations it is
  given.
\<close>

record 'y Bootstrap =
  ssm :: DiscreteCox_with_add_f
  data :: "'y list"

text \<open>
  The slice \<^verbatim>\<open>data[::-1]\<close>: Python starts at the last index and steps down by one to
  index \<open>0\<close>, collecting the elements it visits. \<open>slice_down xs k\<close> collects from index
  \<open>k - 1\<close> down to \<open>0\<close>.
\<close>

fun slice_down :: "'y list \<Rightarrow> nat \<Rightarrow> 'y list" where
  "slice_down xs 0 = []"
| "slice_down xs (Suc k) = xs ! k # slice_down xs k"

definition reversed_slice :: "'y list \<Rightarrow> 'y list" where
  "reversed_slice xs = slice_down xs (length xs)"

text \<open>
  \<^verbatim>\<open>fkmod = ssms.Bootstrap(ssm=my_ssm, data=data)\<close> and
  \<^verbatim>\<open>fk_info = ssms.Bootstrap(ssm=my_ssm, data=data[::-1])\<close>. The observations come from
  \<^verbatim>\<open>my_ssm.simulate(T)\<close>, a random draw; they are a parameter here.
\<close>

definition fkmod :: "'y list \<Rightarrow> 'y Bootstrap" where
  "fkmod d = \<lparr>ssm = my_ssm, data = d\<rparr>"

definition fk_info :: "'y list \<Rightarrow> 'y Bootstrap" where
  "fk_info d = \<lparr>ssm = my_ssm, data = reversed_slice d\<rparr>"

subsection \<open>The prior of the information filter\<close>

text \<open>
  \<^verbatim>\<open>stats.norm.logpdf(x, loc, scale)\<close> of SciPy: with \<open>y = (x - loc) / scale\<close> it is
  \<open>- y^2 / 2 - log (sqrt (2 pi)) - log scale\<close>.
\<close>

definition norm_logpdf :: "real \<Rightarrow> real \<Rightarrow> real \<Rightarrow> real" where
  "norm_logpdf x loc scale =
     - (((x - loc) / scale) ^ 2) / 2 - ln (sqrt (2 * pi)) - ln scale"

text \<open>
  \<^verbatim>\<open>def log_gamma(x):
    return stats.norm.logpdf(x, loc=mu0, scale=sigma0 / np.sqrt(1. - phi0**2))\<close>
\<close>

definition log_gamma :: "real \<Rightarrow> real" where
  "log_gamma x = norm_logpdf x mu0 (sigma0 / sqrt (1 - phi0 ^ 2))"

subsection \<open>The sweep\<close>

definition Ns :: "nat list" where
  "Ns = [100, 400, 1600, 6400]"

definition methods :: "string list" where
  "methods = [''FFBS_ON'', ''FFBS_ON2'', ''two-filter_ON'',
              ''two-filter_ON_prop'', ''two-filter_ON2'']"

text \<open>
  The keyword arguments of the call
  \<^verbatim>\<open>utils.multiplexer(f=smoothing_worker, method=methods, N=Ns, fk=fkmod,
  fk_info=fk_info, add_func=psit, log_gamma=log_gamma, nprocs=0, nruns=10)\<close>
  that vary or configure the sweep, under their names (the keyword \<open>method\<close> is the
  field \<open>method_kw\<close>).
\<close>

record multiplexer_call =
  method_kw :: "string list"
  N :: "nat list"
  nprocs :: int
  nruns :: nat

definition results_call :: multiplexer_call where
  "results_call = \<lparr>method_kw = methods, N = Ns, nprocs = 0, nruns = 10\<rparr>"

text \<open>
  Modelled from the spec: \<^verbatim>\<open>utils.multiplexer\<close> is in \<^verbatim>\<open>particles/utils.py\<close>, which is
  not among the sources. The spec's resource model makes each (method, N, run) one
  evaluation of the worker: every value of a list argument is combined with every value
  of the others, \<open>nruns\<close> times. \<open>dispatched\<close> lists these evaluations.
\<close>

definition dispatched :: "multiplexer_call \<Rightarrow> (string \<times> nat \<times> nat) list" where
  "dispatched c =
     concat (map (\<lambda>m. concat (map (\<lambda>n. map (\<lambda>r. (m, n, r)) [0..<nruns c]) (N c)))
                 (method_kw c))"

section \<open>The additive functional: explicit form, termination, bounds\<close>

lemma psit_nonzero:
  "t \<noteq> 0 \<Longrightarrow> psit t x xf = psit_step x xf"
  by (subst psit.simps) (simp add: psit_step_def)

lemma psit_zero:
  "psit 0 x xf = psi0 x + psit_step x xf"
  by (subst psit.simps) (simp add: psit_nonzero)

lemma sigma0_sq:
  "sigma0 ^ 2 = 1 / 4"
  by (simp add: sigma0_def power_divide)

lemma sigma0_4:
  "sigma0 ^ 4 = 1 / 16"
  by (simp add: sigma0_def power_divide)

lemma psit_step_value:
  "psit_step x xf = 8 * (xf - 9 / 10 * x) ^ 2 - 2"
  by (simp add: psit_step_def sigma0_sq sigma0_4 phi0_def mu0_def)

lemma psi0_value:
  "psi0 x = 152 / 100 * x ^ 2 - 2"
  by (simp add: psi0_def sigma0_sq sigma0_4 phi0_def mu0_def power_divide)

text \<open>
  C2. The recursive \<open>psit\<close> is the explicit piecewise function: at \<open>t = 0\<close> it is
  \<open>psi0 x\<close> plus the step formula, at every other integer \<open>t\<close> it is the step formula
  alone; as functions, \<open>psit\<close> and the non-recursive \<open>psit_explicit\<close> are equal.
\<close>

theorem psit_explicit_form:
  "psit 0 x xf =
     psi0 x + (- 0.5 / sigma0 ^ 2
               + (0.5 / sigma0 ^ 4) * ((xf - mu0) - phi0 * (x - mu0)) ^ 2)
   \<and> (\<forall>t. t \<noteq> 0 \<longrightarrow>
         psit t x xf =
           - 0.5 / sigma0 ^ 2 + (0.5 / sigma0 ^ 4) * ((xf - mu0) - phi0 * (x - mu0)) ^ 2)
   \<and> psit = psit_explicit"
proof (intro conjI allI impI)
  show "psit 0 x xf =
     psi0 x + (- 0.5 / sigma0 ^ 2
               + (0.5 / sigma0 ^ 4) * ((xf - mu0) - phi0 * (x - mu0)) ^ 2)"
    by (simp add: psit_zero psit_step_def)
next
  fix t :: int
  assume "t \<noteq> 0"
  then show "psit t x xf =
      - 0.5 / sigma0 ^ 2 + (0.5 / sigma0 ^ 4) * ((xf - mu0) - phi0 * (x - mu0)) ^ 2"
    by (simp add: psit_nonzero psit_step_def)
next
  show "psit = psit_explicit"
  proof (intro ext)
    fix t a b
    show "psit t a b = psit_explicit t a b"
      by (cases "t = 0") (simp_all add: psit_explicit_def psit_zero psit_nonzero)
  qed
qed

theorem psit_explicit_form_witness:
  "(5::int) \<noteq> 0 \<and> psit 5 1 2 = 7.68 \<and> psit 0 1 2 = 7.2"
proof -
  note form = psit_explicit_form [of 1 2]
  from form have "\<forall>t. t \<noteq> 0 \<longrightarrow> psit t 1 2 =
      - 0.5 / sigma0 ^ 2 + (0.5 / sigma0 ^ 4) * ((2 - mu0) - phi0 * (1 - mu0)) ^ 2"
    by (rule conjunct1 [OF conjunct2])
  then have "psit 5 1 2 =
      - 0.5 / sigma0 ^ 2 + (0.5 / sigma0 ^ 4) * ((2 - mu0) - phi0 * (1 - mu0)) ^ 2"
    by simp
  moreover from form have "psit 0 1 2 = psi0 1 + (- 0.5 / sigma0 ^ 2
               + (0.5 / sigma0 ^ 4) * ((2 - mu0) - phi0 * (1 - mu0)) ^ 2)"
    by (rule conjunct1)
  ultimately show ?thesis
    by (simp add: psi0_def sigma0_sq sigma0_4 phi0_def mu0_def power_divide)
qed

text \<open>
  C8. \<open>psit\<close> is total: it is defined above by well-founded recursion, and the
  fuel-bounded body returns its value as soon as two activations are allowed, for every
  integer \<open>t\<close> and all reals \<open>x\<close>, \<open>xf\<close>. One activation is enough exactly when
  \<open>t\<close> is not \<open>0\<close>: the only nested call is the one made at \<open>t = 0\<close>, with \<open>t = 1\<close>,
  and it makes none itself, so the recursion depth is at most one.
\<close>

theorem psit_terminates:
  "psit_fuel (Suc (Suc n)) t x xf = Some (psit t x xf)
   \<and> psit_fuel (Suc 0) t x xf = (if t = 0 then None else Some (psit t x xf))
   \<and> psit 0 x xf = psi0 x + psit 1 x xf"
  by (cases "t = 0") (simp_all add: psit_zero psit_nonzero psit_step_def)

theorem psit_terminates_witness:
  "psit_fuel 2 0 1 2 = Some 7.2 \<and> psit_fuel 1 0 1 2 = None \<and> psit_fuel 1 3 1 2 = Some 7.68"
proof -
  have two: "psit_fuel (Suc (Suc 0)) 0 1 2 = Some (psit 0 1 2)"
    using psit_terminates [of 0 0 1 2] by blast
  have one: "psit_fuel (Suc 0) 0 1 2 = None"
    using psit_terminates [of 0 0 1 2] by simp
  have three: "psit_fuel (Suc 0) 3 1 2 = Some (psit 3 1 2)"
    using psit_terminates [of 0 3 1 2] by simp
  have v0: "psit 0 1 2 = 7.2"
    by (simp add: psit_zero psi0_value psit_step_value power_divide)
  have v3: "psit 3 1 2 = 7.68"
    by (simp add: psit_nonzero psit_step_value power_divide)
  have n2: "(2::nat) = Suc (Suc 0)" and n1: "(1::nat) = Suc 0"
    by simp_all
  show ?thesis
    unfolding n2 n1 two one three v0 v3 by simp
qed

text \<open>
  C9. Away from \<open>t = 0\<close> the functional does not depend on the time index: any two
  non-zero integers give the same value at the same \<open>x\<close>, \<open>xf\<close>. Only \<open>t = 0\<close> is
  distinguished: there the value is larger by \<open>psi0 x\<close>, which is not always \<open>0\<close>.
\<close>

theorem psit_time_invariant:
  "t1 \<noteq> 0 \<Longrightarrow> t2 \<noteq> 0 \<Longrightarrow>
     psit t1 x xf = psit t2 x xf
     \<and> psit 0 x xf = psi0 x + psit t1 x xf
     \<and> psit 0 0 0 \<noteq> psit t1 0 0"
  by (simp add: psit_zero psit_nonzero psi0_value)

theorem psit_time_invariant_witness:
  "(1::int) \<noteq> 0 \<and> (99::int) \<noteq> 0 \<and> psit 1 1 2 = psit 99 1 2 \<and> psit 0 0 0 \<noteq> psit 1 0 0"
  using psit_time_invariant [of 1 99 1 2] by simp

text \<open>
  C10. The functional is bounded below: for \<open>t\<close> not \<open>0\<close>, \<open>psit t x xf\<close> is at least
  \<open>-0.5 / sigma0^2\<close>; so is \<open>psi0 y\<close> for every real \<open>y\<close>; and \<open>psit 0 x xf\<close> is at
  least \<open>-1 / sigma0^2\<close>.
\<close>

theorem psit_bounded_below:
  "(t \<noteq> 0 \<longrightarrow> - 0.5 / sigma0 ^ 2 \<le> psit t x xf)
   \<and> - 0.5 / sigma0 ^ 2 \<le> psi0 y
   \<and> - 1 / sigma0 ^ 2 \<le> psit 0 x xf"
proof -
  have step: "- 2 \<le> psit_step a b" for a b
    by (simp add: psit_step_value)
  have init: "- 2 \<le> psi0 a" for a
    by (simp add: psi0_value)
  have "- 4 \<le> psi0 x + psit_step x xf"
    using step [of x xf] init [of x] by linarith
  then show ?thesis
    using step [of x xf] init [of y] by (simp add: sigma0_sq psit_zero psit_nonzero)
qed

theorem psit_bounded_below_witness:
  "(7::int) \<noteq> 0 \<and> - 0.5 / sigma0 ^ 2 \<le> psit 7 0 0 \<and> psit 7 0 0 = - 2
   \<and> psi0 0 = - 2 \<and> psit 0 0 0 = - 4"
proof -
  have "- 0.5 / sigma0 ^ 2 \<le> psit 7 0 0"
    using psit_bounded_below [of 7 0 0 0] by simp
  then show ?thesis
    by (simp add: psit_zero psit_nonzero psi0_value psit_step_value)
qed

section \<open>The model: bound on the transition density, prior of the information filter\<close>

lemma ln_normal_density:
  assumes "0 < v"
  shows "ln (normal_density m v x) = - ((x - m) ^ 2) / (2 * v) - ln (2 * pi * v) / 2"
proof -
  have pos: "0 < 2 * pi * v"
    using assms by simp
  then have "0 < sqrt (2 * pi * v)"
    by simp
  then have "ln (normal_density m v x) = - ((x - m) ^ 2) / (2 * v) - ln (sqrt (2 * pi * v))"
    unfolding normal_density_def by (simp add: ln_div)
  also have "ln (sqrt (2 * pi * v)) = ln (2 * pi * v) / 2"
    using pos by (simp add: ln_sqrt)
  finally show ?thesis .
qed

text \<open>
  C1. \<open>upper_bound_log_pt\<close> returns \<open>-0.5 * log (2 pi sigma^2)\<close> whatever its
  argument \<open>t\<close> is, and for a model with positive \<open>sigma\<close> this constant bounds the
  log transition density from above: for all real \<open>x\<close> and \<open>x'\<close>, the logarithm of
  the \<open>N(mu + phi (x - mu), sigma^2)\<close> density at \<open>x'\<close> is at most the value returned.
\<close>

theorem upper_bound_log_pt_valid:
  "0 < sigma self \<Longrightarrow>
     upper_bound_log_pt self t = - 0.5 * ln (2 * pi * (sigma self) ^ 2)
     \<and> upper_bound_log_pt self t = upper_bound_log_pt self t'
     \<and> log_pt self x x' \<le> upper_bound_log_pt self t"
proof -
  assume s: "0 < sigma self"
  then have v: "0 < (sigma self) ^ 2"
    by simp
  have "0 \<le> ((x' - (mu self + phi self * (x - mu self))) ^ 2) / (2 * (sigma self) ^ 2)"
    using v by simp
  then have "log_pt self x x' \<le> - ln (2 * pi * (sigma self) ^ 2) / 2"
    unfolding log_pt_def ln_normal_density [OF v] by simp
  then show ?thesis
    by (simp add: upper_bound_log_pt_def)
qed

theorem upper_bound_log_pt_valid_witness:
  "0 < sigma my_ssm
   \<and> log_pt my_ssm 0 1 \<le> upper_bound_log_pt my_ssm 0
   \<and> upper_bound_log_pt my_ssm 0 = upper_bound_log_pt my_ssm 99"
  using upper_bound_log_pt_valid [of my_ssm 0 99 0 1] by (simp add: my_ssm_def sigma0_def)

lemma norm_logpdf_density:
  assumes "0 < s"
  shows "norm_logpdf x m s = ln (normal_density m (s ^ 2) x)"
proof -
  have v: "0 < s ^ 2"
    using assms by simp
  have dens: "ln (normal_density m (s ^ 2) x) = - ((x - m) ^ 2) / (2 * s ^ 2) - ln (2 * pi * s ^ 2) / 2"
    by (rule ln_normal_density [OF v])
  have prod: "ln (2 * pi * s ^ 2) = ln (2 * pi) + 2 * ln s"
    using assms by (simp add: ln_mult ln_realpow)
  have root: "ln (sqrt (2 * pi)) = ln (2 * pi) / 2"
    by (simp add: ln_sqrt)
  have quot: "- (((x - m) / s) ^ 2) / 2 = - ((x - m) ^ 2) / (2 * s ^ 2)"
    by (simp add: power_divide)
  have "norm_logpdf x m s = - ((x - m) ^ 2) / (2 * s ^ 2) - ln (2 * pi) / 2 - ln s"
    unfolding norm_logpdf_def quot root ..
  with dens prod show ?thesis
    by linarith
qed

lemma gamma_scale_pos:
  "0 < sigma0 / sqrt (1 - phi0 ^ 2)"
  by (simp add: sigma0_def phi0_def power_divide)

lemma gamma_scale_sq:
  "(sigma0 / sqrt (1 - phi0 ^ 2)) ^ 2 = sigma0 ^ 2 / (1 - phi0 ^ 2)"
  by (simp add: power_divide phi0_def)

text \<open>
  C3. For every real \<open>x\<close>, \<open>log_gamma x\<close> is the logarithm of the Normal density
  with mean \<open>mu0\<close> and standard deviation \<open>sigma0 / sqrt (1 - phi0^2)\<close>, that is
  variance \<open>sigma0^2 / (1 - phi0^2)\<close>: the initial law \<open>N(mu, sigma^2 / (1 - phi^2))\<close>
  of the model at the true parameters.
\<close>

theorem log_gamma_stationary:
  "log_gamma x = ln (normal_density mu0 ((sigma0 / sqrt (1 - phi0 ^ 2)) ^ 2) x)
   \<and> log_gamma x = ln (normal_density mu0 (sigma0 ^ 2 / (1 - phi0 ^ 2)) x)
   \<and> log_gamma x = log_px0 my_ssm x"
  unfolding log_gamma_def norm_logpdf_density [OF gamma_scale_pos]
  by (simp add: gamma_scale_sq log_px0_def my_ssm_def)

section \<open>The information filter runs on the reversed observations\<close>

lemma slice_down_take:
  "k \<le> length xs \<Longrightarrow> slice_down xs k = rev (take k xs)"
proof (induction k)
  case 0
  show ?case by simp
next
  case (Suc k)
  then have "k < length xs" by simp
  then have "take (Suc k) xs = take k xs @ [xs ! k]"
    by (rule take_Suc_conv_app_nth)
  with Suc show ?case by simp
qed

lemma reversed_slice_rev:
  "reversed_slice xs = rev xs"
  by (simp add: reversed_slice_def slice_down_take)

text \<open>
  C5. For observations \<open>d\<close> of length \<open>T\<close>, the observations held by \<open>fk_info\<close>
  are the reversal of those held by \<open>fkmod\<close>: both sequences have length \<open>T\<close>, and
  for every index \<open>i < T\<close> the \<open>i\<close>-th observation of \<open>fk_info\<close> is
  \<open>d ! (T - 1 - i)\<close>.
\<close>

theorem fk_info_reverses_data:
  "length d = T \<Longrightarrow>
     length (data (fk_info d)) = T
     \<and> length (data (fkmod d)) = T
     \<and> data (fkmod d) = d
     \<and> (\<forall>i<T. data (fk_info d) ! i = d ! (T - 1 - i))"
  by (simp add: fk_info_def fkmod_def reversed_slice_rev rev_nth)

theorem fk_info_reverses_data_witness:
  "length (map real [0..<100]) = T
   \<and> length (data (fk_info (map real [0..<100]))) = 100
   \<and> data (fk_info (map real [0..<100])) ! 3 = 96"
proof -
  have len: "length (map real [0..<100]) = T"
    by (simp add: T_def)
  note rv = fk_info_reverses_data [OF len]
  from rv have "\<forall>i<T. data (fk_info (map real [0..<100])) ! i = map real [0..<100] ! (T - 1 - i)"
    by simp
  then have "data (fk_info (map real [0..<100])) ! 3 = map real [0..<100] ! (T - 1 - 3)"
    by (simp add: T_def)
  moreover from rv have "length (data (fk_info (map real [0..<100]))) = T"
    by simp
  ultimately show ?thesis
    using len by (simp add: T_def)
qed

section \<open>The sweep over methods, particle counts and runs\<close>

lemma set_dispatched:
  "set (dispatched c) = set (method_kw c) \<times> set (N c) \<times> {0..<nruns c}"
  by (auto simp add: dispatched_def)

lemma count_runs:
  "length (filter (\<lambda>e. fst e = m \<and> fst (snd e) = n) (map (\<lambda>r. (a, b, r)) [0..<k]))
     = (if a = m \<and> b = n then k else 0)"
  by (induction k) auto

lemma count_N:
  "length (filter (\<lambda>e. fst e = m \<and> fst (snd e) = n)
             (concat (map (\<lambda>b. map (\<lambda>r. (a, b, r)) [0..<k]) ns)))
     = (if a = m then count_list ns n * k else 0)"
  by (induction ns) (auto simp add: count_runs)

lemma count_dispatched:
  "length (filter (\<lambda>e. fst e = m \<and> fst (snd e) = n) (dispatched c))
     = count_list (method_kw c) m * count_list (N c) n * nruns c"
proof -
  have "length (filter (\<lambda>e. fst e = m \<and> fst (snd e) = n)
             (concat (map (\<lambda>a. concat (map (\<lambda>b. map (\<lambda>r. (a, b, r)) [0..<k]) ns)) ms)))
     = count_list ms m * count_list ns n * k" for ms ns k
    by (induction ms) (auto simp add: count_N algebra_simps)
  then show ?thesis
    by (simp add: dispatched_def)
qed

lemma distinct_methods:
  "distinct methods"
  by (simp add: methods_def)

lemma distinct_Ns:
  "distinct Ns"
  by (simp add: Ns_def)

lemma count_list_distinct:
  "distinct xs \<Longrightarrow> x \<in> set xs \<Longrightarrow> count_list xs x = 1"
  by (induction xs) (auto simp add: count_list_0_iff)

text \<open>
  C6. The method names given to the worker are exactly the five names \<open>FFBS_ON\<close>,
  \<open>FFBS_ON2\<close>, \<open>two-filter_ON\<close>, \<open>two-filter_ON_prop\<close> and \<open>two-filter_ON2\<close>:
  the \<open>method\<close> argument of the call lists these five, each once, and the set of method
  names over all dispatched evaluations is this set.
\<close>

theorem methods_closed_enumeration:
  "set (method_kw results_call) =
     {''FFBS_ON'', ''FFBS_ON2'', ''two-filter_ON'', ''two-filter_ON_prop'', ''two-filter_ON2''}
   \<and> fst ` set (dispatched results_call) =
     {''FFBS_ON'', ''FFBS_ON2'', ''two-filter_ON'', ''two-filter_ON_prop'', ''two-filter_ON2''}
   \<and> distinct (method_kw results_call)
   \<and> length (method_kw results_call) = 5
   \<and> card (set (method_kw results_call)) = 5"
proof -
  have "fst ` set (dispatched results_call) = set (method_kw results_call)"
    unfolding set_dispatched by (force simp add: results_call_def Ns_def)
  moreover have "card (set (method_kw results_call)) = length (method_kw results_call)"
    using distinct_methods by (simp add: results_call_def distinct_card)
  ultimately show ?thesis
    by (simp add: results_call_def methods_def)
qed

text \<open>
  C7. The configuration of the experiment: \<open>T = 100\<close>, \<open>mu0 = 0\<close>, \<open>phi0 = 0.9\<close>,
  \<open>sigma0 = 0.5\<close>, which are the parameters of the model; the particle counts swept
  are \<open>100\<close>, \<open>400\<close>, \<open>1600\<close> and \<open>6400\<close>; \<open>nruns\<close> is \<open>10\<close>; method
  \<open>FFBS_ON2\<close> is evaluated at \<open>N = 1600\<close>; and every pair of a method and a particle
  count is evaluated exactly ten times, in the runs \<open>0\<close> to \<open>9\<close>.
\<close>

theorem experiment_configuration:
  "T = 100 \<and> mu0 = 0 \<and> phi0 = 0.9 \<and> sigma0 = 0.5
   \<and> my_ssm = \<lparr>mu = 0, phi = 0.9, sigma = 0.5\<rparr>
   \<and> N results_call = [100, 400, 1600, 6400]
   \<and> set (N results_call) = {100, 400, 1600, 6400}
   \<and> nruns results_call = 10 \<and> 10 \<le> nruns results_call
   \<and> (\<forall>r<10. (''FFBS_ON2'', 1600, r) \<in> set (dispatched results_call))
   \<and> (\<forall>m\<in>set methods. \<forall>n\<in>set Ns.
        length (filter (\<lambda>e. fst e = m \<and> fst (snd e) = n) (dispatched results_call)) = 10
        \<and> {r. (m, n, r) \<in> set (dispatched results_call)} = {0..<10})"
proof -
  have params: "T = 100 \<and> mu0 = 0 \<and> phi0 = 0.9 \<and> sigma0 = 0.5
      \<and> my_ssm = \<lparr>mu = 0, phi = 0.9, sigma = 0.5\<rparr>"
    by (simp add: T_def mu0_def phi0_def sigma0_def my_ssm_def)
  have sweep: "N results_call = [100, 400, 1600, 6400]
      \<and> set (N results_call) = {100, 400, 1600, 6400}
      \<and> nruns results_call = 10 \<and> 10 \<le> nruns results_call"
    by (simp add: results_call_def Ns_def)
  have ffbs: "\<forall>r<10. (''FFBS_ON2'', 1600, r) \<in> set (dispatched results_call)"
    unfolding set_dispatched by (simp add: results_call_def methods_def Ns_def)
  have runs: "length (filter (\<lambda>e. fst e = m \<and> fst (snd e) = n) (dispatched results_call)) = 10
        \<and> {r. (m, n, r) \<in> set (dispatched results_call)} = {0..<10}"
    if "m \<in> set methods" and "n \<in> set Ns" for m n
  proof -
    have "count_list (method_kw results_call) m = 1" and "count_list (N results_call) n = 1"
      using that distinct_methods distinct_Ns
      by (simp_all add: results_call_def count_list_distinct)
    then have "length (filter (\<lambda>e. fst e = m \<and> fst (snd e) = n) (dispatched results_call)) = 10"
      unfolding count_dispatched by (simp add: results_call_def)
    moreover have "{r. (m, n, r) \<in> set (dispatched results_call)} = {0..<10}"
      unfolding set_dispatched using that by (auto simp add: results_call_def)
    ultimately show ?thesis ..
  qed
  from params sweep ffbs runs show ?thesis
    by blast
qed

theorem experiment_configuration_witness:
  "''two-filter_ON'' \<in> set methods \<and> 6400 \<in> set Ns
   \<and> length (filter (\<lambda>e. fst e = ''two-filter_ON'' \<and> fst (snd e) = 6400)
               (dispatched results_call)) = 10
   \<and> (''FFBS_ON2'', 1600, 9) \<in> set (dispatched results_call)"
proof -
  have m: "''two-filter_ON'' \<in> set methods" and n: "6400 \<in> set Ns"
    by (simp_all add: methods_def Ns_def)
  note conf = experiment_configuration
  from conf have "\<forall>m\<in>set methods. \<forall>n\<in>set Ns.
        length (filter (\<lambda>e. fst e = m \<and> fst (snd e) = n) (dispatched results_call)) = 10
        \<and> {r. (m, n, r) \<in> set (dispatched results_call)} = {0..<10}"
    by (elim conjE)
  with m n have "length (filter (\<lambda>e. fst e = ''two-filter_ON'' \<and> fst (snd e) = 6400)
               (dispatched results_call)) = 10"
    by blast
  moreover from conf have "\<forall>r<10. (''FFBS_ON2'', 1600, r) \<in> set (dispatched results_call)"
    by (elim conjE)
  then have "(''FFBS_ON2'', 1600, 9) \<in> set (dispatched results_call)"
    by simp
  ultimately show ?thesis
    using m n by simp
qed

end
